theory Spec2Isabelle
  imports Complex_Main
begin

section \<open>The training script of the disaster response pipeline\<close>

text \<open>
  A shallow embedding of \<^verbatim>\<open>models/train_classifier.py\<close>. The script is glue over
  third-party libraries; what the script itself computes is modelled as written, and
  every library function it calls is either a parameter or, where a claim depends on
  what the library prints or stores, a small model that is marked as such.

  A Python \<^verbatim>\<open>str\<close> is modelled as a \<^typ>\<open>string\<close> whose characters are the code
  points below 256. An exception is a value of \<open>py_error\<close> on the left of a sum.
\<close>

subsection \<open>Errors\<close>

datatype py_error =
    IndexError
  | ValueError
  | KeyError
  | AttributeError
  | OSError
  | OperationalError
  | DatabaseError
  | LibraryError

definition bind :: "py_error + 'a \<Rightarrow> ('a \<Rightarrow> py_error + 'b) \<Rightarrow> py_error + 'b" where
  "bind r k = (case r of Inl e \<Rightarrow> Inl e | Inr x \<Rightarrow> k x)"

subsection \<open>Strings and lists as Python has them\<close>

text \<open>
  \<^verbatim>\<open>s.split(sep)\<close> with a one-character separator: a string with \<open>k\<close> separators
  gives \<open>k + 1\<close> pieces, empty ones included. \<open>split_on\<close> cuts at every character
  that satisfies a predicate.
\<close>

fun split_on :: "(char \<Rightarrow> bool) \<Rightarrow> string \<Rightarrow> string list" where
  "split_on p [] = [[]]"
| "split_on p (c # cs) =
     (if p c then [] # split_on p cs
      else (case split_on p cs of
              [] \<Rightarrow> [[c]]
            | w # ws \<Rightarrow> (c # w) # ws))"

definition str_split :: "char \<Rightarrow> string \<Rightarrow> string list" where
  "str_split sep s = split_on (\<lambda>c. c = sep) s"

text \<open>\<^verbatim>\<open>list(filter(None, xs))\<close> on a list of strings keeps the non-empty ones.\<close>

definition filter_None :: "string list \<Rightarrow> string list" where
  "filter_None xs = filter (\<lambda>s. s \<noteq> []) xs"

text \<open>\<^verbatim>\<open>xs[i]\<close> for a literal index \<open>i \<ge> 0\<close>: IndexError out of range.\<close>

definition py_get :: "'a list \<Rightarrow> nat \<Rightarrow> py_error + 'a" where
  "py_get xs i = (if i < length xs then Inr (xs ! i) else Inl IndexError)"

text \<open>
  \<^verbatim>\<open>xs[start:stop]\<close>: a negative bound counts from the end, and both bounds are
  clamped to the list.
\<close>

definition slice_bound :: "nat \<Rightarrow> int \<Rightarrow> nat" where
  "slice_bound n i = (if i < 0 then nat (max (int n + i) 0) else min (nat i) n)"

definition py_slice :: "int \<Rightarrow> int \<Rightarrow> 'a list \<Rightarrow> 'a list" where
  "py_slice start stop xs =
     (let a = slice_bound (length xs) start;
          b = slice_bound (length xs) stop
      in take (b - a) (drop a xs))"

subsection \<open>The report table\<close>

text \<open>
  A cell of a dataframe holds a string, an integer or a float. Floating-point values
  are not modelled: \<open>'f\<close> is the type of floats, and Python's \<^verbatim>\<open>float(s)\<close> is a
  parameter \<open>pyfloat :: string \<Rightarrow> 'f option\<close>, \<open>None\<close> where \<^verbatim>\<open>float\<close> raises
  ValueError. A row under construction is the Python dict of the source, as an
  association list in insertion order.
\<close>

datatype 'f cell = Str string | Integer int | Num 'f

type_synonym 'f row = "(string \<times> 'f cell) list"

definition dict_set :: "'f row \<Rightarrow> string \<Rightarrow> 'f cell \<Rightarrow> 'f row" where
  "dict_set row k v =
     (if k \<in> fst ` set row then map (\<lambda>(k', v'). if k' = k then (k', v) else (k', v')) row
      else row @ [(k, v)])"

definition float_of :: "(string \<Rightarrow> 'f option) \<Rightarrow> string \<Rightarrow> py_error + 'f" where
  "float_of pyfloat s = (case pyfloat s of None \<Rightarrow> Inl ValueError | Some x \<Rightarrow> Inr x)"

text \<open>The body of the loop of \<^verbatim>\<open>classification_report_df\<close>, for one line.\<close>

definition report_row :: "(string \<Rightarrow> 'f option) \<Rightarrow> string \<Rightarrow> py_error + 'f row" where
  "report_row pyfloat line =
     (let row = [];
          row_data = str_split (CHR '' '') line;
          row_data = filter_None row_data
      in bind (py_get row_data 0) (\<lambda>c.
         let row = dict_set row ''class'' (Str c) in
         bind (py_get row_data 1) (\<lambda>s1. bind (float_of pyfloat s1) (\<lambda>p.
         let row = dict_set row ''precision'' (Num p) in
         bind (py_get row_data 2) (\<lambda>s2. bind (float_of pyfloat s2) (\<lambda>r.
         let row = dict_set row ''recall'' (Num r) in
         bind (py_get row_data 3) (\<lambda>s3. bind (float_of pyfloat s3) (\<lambda>f.
         let row = dict_set row ''f1_score'' (Num f) in
         bind (py_get row_data 4) (\<lambda>s4. bind (float_of pyfloat s4) (\<lambda>s.
         let row = dict_set row ''support'' (Num s) in
         Inr row))))))))))"

text \<open>The loop: rows are appended to \<open>report_data\<close>; the first error ends it.\<close>

fun report_loop ::
  "(string \<Rightarrow> 'f option) \<Rightarrow> string list \<Rightarrow> 'f row list \<Rightarrow> py_error + 'f row list" where
  "report_loop pyfloat [] report_data = Inr report_data"
| "report_loop pyfloat (line # lines) report_data =
     (case report_row pyfloat line of
        Inl e \<Rightarrow> Inl e
      | Inr row \<Rightarrow> report_loop pyfloat lines (report_data @ [row]))"

text \<open>
  A dataframe: the column names and the rows of cells. \<^verbatim>\<open>pd.DataFrame.from_dict\<close> on a
  list of dicts takes the keys as columns and one row per dict; the dicts that the loop
  builds all have the same keys in the same order, so the columns are the keys of the
  first dict, and an empty list gives a dataframe without columns.
\<close>

record 'f dataframe =
  columns :: "string list"
  rows :: "'f cell list list"

definition DataFrame_from_dict :: "'f row list \<Rightarrow> 'f dataframe" where
  "DataFrame_from_dict report_data =
     \<lparr>columns = (case report_data of [] \<Rightarrow> [] | row # _ \<Rightarrow> map fst row),
      rows = map (map snd) report_data\<rparr>"

definition classification_report_df ::
  "(string \<Rightarrow> 'f option) \<Rightarrow> string \<Rightarrow> py_error + 'f dataframe" where
  "classification_report_df pyfloat report =
     (let report_data = [];
          lines = str_split (CHR 0x0A) report
      in bind (report_loop pyfloat (py_slice 2 (- 6) lines) report_data) (\<lambda>report_data.
         let df_report = DataFrame_from_dict report_data in
         Inr df_report))"

text \<open>
  The fields of a line as the loop body reads them: the non-empty pieces between
  space characters.
\<close>

definition space_fields :: "string \<Rightarrow> string list" where
  "space_fields line = filter_None (str_split (CHR '' '') line)"

text \<open>
  The fields of a line as the words "whitespace-separated fields" describe them, that
  is Python's \<^verbatim>\<open>line.split()\<close>: the non-empty pieces between characters for which
  \<^verbatim>\<open>str.isspace\<close> holds (below 256: 9 to 13, 28 to 32, 133 and 160). This definition
  follows the specification's words; the script uses \<open>space_fields\<close>.
\<close>

definition isspace :: "char \<Rightarrow> bool" where
  "isspace c = ((of_char c :: nat) \<in> set [9, 10, 11, 12, 13, 28, 29, 30, 31, 32, 133, 160])"

definition whitespace_fields :: "string \<Rightarrow> string list" where
  "whitespace_fields line = filter_None (split_on isspace line)"

text \<open>
  A line parses when it has five fields and \<^verbatim>\<open>float\<close> accepts the second to the fifth.
\<close>

definition fields_parse :: "(string \<Rightarrow> 'f option) \<Rightarrow> string list \<Rightarrow> bool" where
  "fields_parse pyfloat fs =
     (5 \<le> length fs \<and> pyfloat (fs ! 1) \<noteq> None \<and> pyfloat (fs ! 2) \<noteq> None
        \<and> pyfloat (fs ! 3) \<noteq> None \<and> pyfloat (fs ! 4) \<noteq> None)"

text \<open>
  A stand-in for \<^verbatim>\<open>float\<close> in examples: it reads the plain decimal numerals
  \<^verbatim>\<open>digits\<close> and \<^verbatim>\<open>digits.digits\<close> exactly and rejects every other string. Python's
  \<^verbatim>\<open>float\<close> accepts these numerals too (and more: signs, exponents, \<^verbatim>\<open>inf\<close>,
  \<^verbatim>\<open>nan\<close>, surrounding whitespace), and rounds where \<open>dec_float\<close> is exact.
\<close>

definition digit_of :: "char \<Rightarrow> nat option" where
  "digit_of c =
     (let n = (of_char c :: nat) in if 48 \<le> n \<and> n \<le> 57 then Some (n - 48) else None)"

fun digits_val :: "string \<Rightarrow> nat \<Rightarrow> nat option" where
  "digits_val [] acc = Some acc"
| "digits_val (c # cs) acc =
     (case digit_of c of None \<Rightarrow> None | Some d \<Rightarrow> digits_val cs (10 * acc + d))"

definition dec_float :: "string \<Rightarrow> rat option" where
  "dec_float s =
     (case str_split (CHR ''.'') s of
        [a] \<Rightarrow> (if a = [] then None else map_option of_nat (digits_val a 0))
      | [a, b] \<Rightarrow>
          (if a = [] \<or> b = [] then None
           else (case (digits_val a 0, digits_val b 0) of
                   (Some x, Some y) \<Rightarrow> Some (of_nat x + of_nat y / 10 ^ length b)
                 | _ \<Rightarrow> None))
      | _ \<Rightarrow> None)"

text \<open>
  The row that the loop body builds from the fields of a parsed line: the columns
  \<^verbatim>\<open>class\<close>, \<^verbatim>\<open>precision\<close>, \<^verbatim>\<open>recall\<close>, \<^verbatim>\<open>f1_score\<close>, \<^verbatim>\<open>support\<close> from the first five
  fields, in this order.
\<close>

definition report_columns :: "string list" where
  "report_columns = [''class'', ''precision'', ''recall'', ''f1_score'', ''support'']"

definition cells_of_fields :: "(string \<Rightarrow> 'f option) \<Rightarrow> string list \<Rightarrow> 'f cell list" where
  "cells_of_fields pyfloat fs =
     [Str (fs ! 0),
      Num (the (pyfloat (fs ! 1))),
      Num (the (pyfloat (fs ! 2))),
      Num (the (pyfloat (fs ! 3))),
      Num (the (pyfloat (fs ! 4)))]"

subsection \<open>Text normalisation\<close>

text \<open>
  \<^verbatim>\<open>str.lower\<close> on the code points below 256: the letters A to Z and the Latin-1
  capitals (192 to 222, without the multiplication sign 215) move up by 32, every other
  code point stays.
\<close>

definition lower_char :: "char \<Rightarrow> char" where
  "lower_char c =
     (let n = (of_char c :: nat)
      in if (65 \<le> n \<and> n \<le> 90) \<or> (192 \<le> n \<and> n \<le> 222 \<and> n \<noteq> 215)
         then char_of (n + 32) else c)"

definition lower :: "string \<Rightarrow> string" where
  "lower text = map lower_char text"

text \<open>The character class \<^verbatim>\<open>[a-zA-Z0-9]\<close> and its lowercase part \<^verbatim>\<open>[a-z0-9]\<close>.\<close>

definition alnum :: "char \<Rightarrow> bool" where
  "alnum c =
     (let n = (of_char c :: nat)
      in (97 \<le> n \<and> n \<le> 122) \<or> (65 \<le> n \<and> n \<le> 90) \<or> (48 \<le> n \<and> n \<le> 57))"

definition lower_alnum :: "char \<Rightarrow> bool" where
  "lower_alnum c =
     (let n = (of_char c :: nat) in (97 \<le> n \<and> n \<le> 122) \<or> (48 \<le> n \<and> n \<le> 57))"

text \<open>\<^verbatim>\<open>re.sub(r'[^a-zA-Z0-9]', ' ', s)\<close>: every character outside the class becomes a space.\<close>

definition re_sub_non_alnum :: "string \<Rightarrow> string" where
  "re_sub_non_alnum s = map (\<lambda>c. if alnum c then c else CHR '' '') s"

text \<open>
  The NLTK resources that \<^verbatim>\<open>tokenize\<close> uses are parameters: the tokenizer
  \<^verbatim>\<open>word_tokenize\<close>, the list \<^verbatim>\<open>stopwords.words('english')\<close> and
  \<^verbatim>\<open>WordNetLemmatizer().lemmatize\<close> with its part of speech (\<^verbatim>\<open>'n'\<close> by default).
\<close>

datatype pos = Noun | Verb

record nltk =
  word_tokenize :: "string \<Rightarrow> string list"
  stopwords_english :: "string list"
  lemmatize :: "string \<Rightarrow> pos \<Rightarrow> string"

definition tokenize :: "nltk \<Rightarrow> string \<Rightarrow> string list" where
  "tokenize nl text =
     (let text = re_sub_non_alnum (lower text);
          words = word_tokenize nl text;
          stop_words = stopwords_english nl;
          words = filter (\<lambda>w. w \<notin> set stop_words) words;
          lem = map (\<lambda>w. lemmatize nl w Noun) words;
          lem = map (\<lambda>w. lemmatize nl w Verb) lem
      in lem)"

text \<open>
  Predicates for the output: a text of lowercase letters, digits and spaces; a
  non-empty token of lowercase letters and digits; and the two properties of the NLTK
  functions under which such tokens stay such tokens.
\<close>

definition normal_text :: "string \<Rightarrow> bool" where
  "normal_text s = (\<forall>c \<in> set s. lower_alnum c \<or> c = CHR '' '')"

definition lower_alnum_token :: "string \<Rightarrow> bool" where
  "lower_alnum_token w = (w \<noteq> [] \<and> (\<forall>c \<in> set w. lower_alnum c))"

definition keeps_lower_alnum :: "nltk \<Rightarrow> bool" where
  "keeps_lower_alnum nl =
     ((\<forall>s. normal_text s \<longrightarrow> (\<forall>w \<in> set (word_tokenize nl s). lower_alnum_token w)) \<and>
      (\<forall>w p. lower_alnum_token w \<longrightarrow> lower_alnum_token (lemmatize nl w p)))"

text \<open>
  A fragment of NLTK for the examples. On a text of letters, digits and spaces
  \<^verbatim>\<open>word_tokenize\<close> cuts at the spaces (it also cuts a few contractions such as
  \<^verbatim>\<open>cannot\<close>, which the fragment leaves whole). The stop words are the entries of NLTK's
  English list that hold no apostrophe. The lemmatizer knows the plurals of the
  examples, \<^verbatim>\<open>bottles\<close> and \<^verbatim>\<open>cans\<close>, and leaves every other word as it is, which is
  what WordNet does for \<^verbatim>\<open>help\<close>, \<^verbatim>\<open>need\<close>, \<^verbatim>\<open>water\<close>, \<^verbatim>\<open>2\<close>, \<^verbatim>\<open>bottle\<close> and \<^verbatim>\<open>can\<close>
  as nouns and as verbs.
\<close>

definition fragment_word_tokenize :: "string \<Rightarrow> string list" where
  "fragment_word_tokenize s = filter_None (str_split (CHR '' '') s)"

definition fragment_stopwords :: "string list" where
  "fragment_stopwords =
     [''i'', ''me'', ''my'', ''myself'', ''we'', ''our'', ''ours'', ''ourselves'', ''you'',
      ''your'', ''yours'', ''yourself'', ''yourselves'', ''he'', ''him'', ''his'', ''himself'',
      ''she'', ''her'', ''hers'', ''herself'', ''it'', ''its'', ''itself'', ''they'', ''them'',
      ''their'', ''theirs'', ''themselves'', ''what'', ''which'', ''who'', ''whom'', ''this'',
      ''that'', ''these'', ''those'', ''am'', ''is'', ''are'', ''was'', ''were'', ''be'', ''been'',
      ''being'', ''have'', ''has'', ''had'', ''having'', ''do'', ''does'', ''did'', ''doing'',
      ''a'', ''an'', ''the'', ''and'', ''but'', ''if'', ''or'', ''because'', ''as'', ''until'',
      ''while'', ''of'', ''at'', ''by'', ''for'', ''with'', ''about'', ''against'', ''between'',
      ''into'', ''through'', ''during'', ''before'', ''after'', ''above'', ''below'', ''to'',
      ''from'', ''up'', ''down'', ''in'', ''out'', ''on'', ''off'', ''over'', ''under'', ''again'',
      ''further'', ''then'', ''once'', ''here'', ''there'', ''when'', ''where'', ''why'', ''how'',
      ''all'', ''any'', ''both'', ''each'', ''few'', ''more'', ''most'', ''other'', ''some'',
      ''such'', ''no'', ''nor'', ''not'', ''only'', ''own'', ''same'', ''so'', ''than'', ''too'',
      ''very'', ''s'', ''t'', ''can'', ''will'', ''just'', ''don'', ''should'', ''now'']"

definition fragment_lemmatize :: "string \<Rightarrow> pos \<Rightarrow> string" where
  "fragment_lemmatize w p =
     (if p = Noun \<and> w = ''bottles'' then ''bottle''
      else if p = Noun \<and> w = ''cans'' then ''can''
      else w)"

definition nltk_fragment :: nltk where
  "nltk_fragment =
     \<lparr>word_tokenize = fragment_word_tokenize,
      stopwords_english = fragment_stopwords,
      lemmatize = fragment_lemmatize\<rparr>"

subsection \<open>The model\<close>

text \<open>
  Python values that occur as parameters of estimators. \<open>PyFloat\<close> holds the value of a
  float literal; the only float literals of the script, \<^verbatim>\<open>0.5\<close> and \<^verbatim>\<open>0.2\<close>, stand for
  one half (exactly) and for the double next to one fifth.
\<close>

datatype pyval = PyNone | PyInt int | PyFloat rat | PyStr string | PyTuple "pyval list"

text \<open>
  The estimators that \<^verbatim>\<open>build_model\<close> composes, with the keyword arguments that the
  script passes. The tokenizer of the vectorizer is the function \<^verbatim>\<open>tokenize\<close> itself.
\<close>

record count_vectorizer =
  tokenizer :: "string \<Rightarrow> string list"
  ngram_range :: pyval
  max_df :: pyval
  max_features :: pyval

datatype estimator =
    Pipeline "(string \<times> estimator) list"
  | CountVectorizer count_vectorizer
  | TfidfTransformer
  | MultiOutputClassifier estimator
  | OneVsRestClassifier estimator
  | LinearSVC

text \<open>
  The grid search object. \<open>'w\<close> is the type of what fitting learns (vocabulary and
  weights), which is opaque. The attributes \<^verbatim>\<open>best_estimator_\<close> and \<^verbatim>\<open>best_params_\<close>
  (here without the final underscore) exist only after \<^verbatim>\<open>fit\<close>: \<open>None\<close> is the
  missing attribute.
\<close>

record 'w GridSearchCV =
  estimator :: estimator
  param_grid :: "(string \<times> pyval list) list"
  scoring :: string
  n_jobs :: int
  verbose :: int
  best_estimator :: "(estimator \<times> 'w) option"
  best_params :: "(string \<times> pyval) list option"

definition build_model :: "nltk \<Rightarrow> 'w GridSearchCV" where
  "build_model nl =
     (let pipeline = Pipeline [
            (''text_pipeline'', Pipeline [
                (''vect'', CountVectorizer
                   \<lparr>tokenizer = tokenize nl,
                    ngram_range = PyTuple [PyInt 1, PyInt 2],
                    max_df = PyFloat (1 / 2),
                    max_features = PyNone\<rparr>),
                (''tfidf'', TfidfTransformer)]),
            (''multi_clf'', MultiOutputClassifier (OneVsRestClassifier LinearSVC))];
          parameters = [(''text_pipeline__vect__max_features'', [PyNone, PyInt 10000])];
          cv = \<lparr>estimator = pipeline, param_grid = parameters, scoring = ''f1_macro'',
                n_jobs = 1, verbose = 10, best_estimator = None, best_params = None\<rparr>
      in cv)"

text \<open>
  What the library does with these settings, as its documentation has it. A key of the
  parameter grid names a parameter of a nested step: \<^verbatim>\<open>step__rest\<close> is the parameter
  \<^verbatim>\<open>rest\<close> of the step \<^verbatim>\<open>step\<close>. The grid search tries every combination of the listed
  values. With a float \<^verbatim>\<open>max_df\<close>, the vectorizer drops a term whose document count
  exceeds that proportion of the documents.
\<close>

fun partition_dunder :: "string \<Rightarrow> string \<times> string option" where
  "partition_dunder (a # b # cs) =
     (if a = CHR ''_'' \<and> b = CHR ''_'' then ([], Some cs)
      else (case partition_dunder (b # cs) of (h, r) \<Rightarrow> (a # h, r)))"
| "partition_dunder cs = (cs, None)"

fun set_params :: "estimator \<Rightarrow> string \<Rightarrow> pyval \<Rightarrow> py_error + estimator"
  and set_params_step ::
    "(string \<times> estimator) list \<Rightarrow> string \<Rightarrow> string \<Rightarrow> pyval \<Rightarrow> py_error + (string \<times> estimator) list"
where
  "set_params (Pipeline steps) key v =
     (case partition_dunder key of
        (name, Some sub) \<Rightarrow>
          (case set_params_step steps name sub v of
             Inl e \<Rightarrow> Inl e
           | Inr steps' \<Rightarrow> Inr (Pipeline steps'))
      | (name, None) \<Rightarrow> Inl ValueError)"
| "set_params (CountVectorizer cv) key v =
     (if key = ''ngram_range'' then Inr (CountVectorizer (cv\<lparr>ngram_range := v\<rparr>))
      else if key = ''max_df'' then Inr (CountVectorizer (cv\<lparr>max_df := v\<rparr>))
      else if key = ''max_features'' then Inr (CountVectorizer (cv\<lparr>max_features := v\<rparr>))
      else Inl ValueError)"
| "set_params TfidfTransformer key v = Inl ValueError"
| "set_params (MultiOutputClassifier e) key v = Inl ValueError"
| "set_params (OneVsRestClassifier e) key v = Inl ValueError"
| "set_params LinearSVC key v = Inl ValueError"
| "set_params_step [] name sub v = Inl ValueError"
| "set_params_step ((n, e) # rest) name sub v =
     (if n = name
      then (case set_params e sub v of
              Inl err \<Rightarrow> Inl err
            | Inr e' \<Rightarrow> Inr ((n, e') # rest))
      else (case set_params_step rest name sub v of
              Inl err \<Rightarrow> Inl err
            | Inr rest' \<Rightarrow> Inr ((n, e) # rest')))"

fun ParameterGrid :: "(string \<times> pyval list) list \<Rightarrow> (string \<times> pyval) list list" where
  "ParameterGrid [] = [[]]"
| "ParameterGrid ((k, vs) # grid) =
     concat (map (\<lambda>v. map (\<lambda>ps. (k, v) # ps) (ParameterGrid grid)) vs)"

fun set_all_params :: "estimator \<Rightarrow> (string \<times> pyval) list \<Rightarrow> py_error + estimator" where
  "set_all_params est [] = Inr est"
| "set_all_params est ((k, v) # ps) =
     (case set_params est k v of Inl e \<Rightarrow> Inl e | Inr est' \<Rightarrow> set_all_params est' ps)"

definition candidates :: "'w GridSearchCV \<Rightarrow> (py_error + estimator) list" where
  "candidates cv = map (set_all_params (estimator cv)) (ParameterGrid (param_grid cv))"

definition max_df_drops :: "pyval \<Rightarrow> nat \<Rightarrow> nat \<Rightarrow> bool" where
  "max_df_drops md n_docs doc_count =
     (case md of
        PyFloat r \<Rightarrow> r * of_nat n_docs < of_nat doc_count
      | PyInt k \<Rightarrow> k < int doc_count
      | _ \<Rightarrow> False)"

subsection \<open>The world: standard output, files, library calls\<close>

text \<open>
  What a run can change. A file holds a pickled object, an SQLite database (its tables
  by name) or nothing yet. A pickled object is a fitted estimator (its settings and what
  it learnt) or a grid search object. \<open>can_write\<close> tells whether a file can be created
  or opened for writing at a path (the directory exists, the permissions allow it).
  \<open>calls\<close> records the library functions that were called, in order. Paths are
  compared as they are written; two spellings of one file are two paths.
\<close>

datatype 'w pyobj = FittedEstimator estimator 'w | SearchObject "'w GridSearchCV"

datatype ('w, 'f) file_content =
    PickleFile "'w pyobj"
  | SqliteFile "(string \<times> 'f dataframe) list"
  | EmptyFile

datatype printed = Text string | Params "(string \<times> pyval) list"

record ('w, 'f) world =
  stdout :: "printed list list"
  files :: "string \<Rightarrow> ('w, 'f) file_content option"
  can_write :: "string \<Rightarrow> bool"
  calls :: "string list"

type_synonym ('a, 'w, 'f) io = "('w, 'f) world \<Rightarrow> (py_error + 'a) \<times> ('w, 'f) world"

definition io_return :: "'a \<Rightarrow> ('a, 'w, 'f) io" where
  "io_return x w = (Inr x, w)"

definition io_bind :: "('a, 'w, 'f) io \<Rightarrow> ('a \<Rightarrow> ('b, 'w, 'f) io) \<Rightarrow> ('b, 'w, 'f) io" where
  "io_bind m k w = (case m w of (Inl e, w') \<Rightarrow> (Inl e, w') | (Inr x, w') \<Rightarrow> k x w')"

definition io_of :: "py_error + 'a \<Rightarrow> ('a, 'w, 'f) io" where
  "io_of r w = (r, w)"

definition called :: "string \<Rightarrow> ('w, 'f) world \<Rightarrow> ('w, 'f) world" where
  "called name w = w\<lparr>calls := calls w @ [name]\<rparr>"

text \<open>A call of a library function that changes nothing but may raise.\<close>

definition lib_call :: "string \<Rightarrow> py_error + 'a \<Rightarrow> ('a, 'w, 'f) io" where
  "lib_call name r w = (r, called name w)"

definition print :: "printed list \<Rightarrow> (unit, 'w, 'f) io" where
  "print args w = (Inr (), w\<lparr>stdout := stdout w @ [args]\<rparr>)"

text \<open>
  The database library, as far as the script uses it. An engine is its URL; nothing is
  opened before the first use. Connecting to a path opens the database there, creates
  an empty one when there is no file and one can be created, and fails on a file that
  is not a database. \<^verbatim>\<open>read_sql_table\<close> raises ValueError when the table is missing.
  \<^verbatim>\<open>to_sql(name, engine, index=False, if_exists='replace')\<close> drops a table of that name
  and stores the dataframe under it.
\<close>

definition create_engine :: "string \<Rightarrow> string" where
  "create_engine url = url"

definition engine_path :: "string \<Rightarrow> py_error + string" where
  "engine_path engine =
     (if take 10 engine = ''sqlite:///'' then Inr (drop 10 engine) else Inl LibraryError)"

definition connect :: "string \<Rightarrow> ((string \<times> 'f dataframe) list, 'w, 'f) io" where
  "connect engine w =
     (case engine_path engine of
        Inl e \<Rightarrow> (Inl e, w)
      | Inr path \<Rightarrow>
          (case files w path of
             Some (SqliteFile tables) \<Rightarrow> (Inr tables, w)
           | Some (PickleFile obj) \<Rightarrow> (Inl DatabaseError, w)
           | Some EmptyFile \<Rightarrow> (Inr [], w\<lparr>files := (files w)(path \<mapsto> SqliteFile [])\<rparr>)
           | None \<Rightarrow>
               (if can_write w path
                then (Inr [], w\<lparr>files := (files w)(path \<mapsto> SqliteFile [])\<rparr>)
                else (Inl OperationalError, w))))"

definition read_sql_table :: "string \<Rightarrow> string \<Rightarrow> ('f dataframe, 'w, 'f) io" where
  "read_sql_table table_name con w =
     io_bind (connect con) (\<lambda>tables.
       io_of (case map_of tables table_name of
                None \<Rightarrow> Inl ValueError
              | Some df \<Rightarrow> Inr df)) (called ''read_sql_table'' w)"

definition to_sql_replace :: "'f dataframe \<Rightarrow> string \<Rightarrow> string \<Rightarrow> (unit, 'w, 'f) io" where
  "to_sql_replace df name con w =
     io_bind (connect con) (\<lambda>tables w'.
       (case engine_path con of
          Inl e \<Rightarrow> (Inl e, w')
        | Inr path \<Rightarrow>
            (if can_write w' path
             then (Inr (), w'\<lparr>files := (files w')(path \<mapsto>
                      SqliteFile (filter (\<lambda>t. fst t \<noteq> name) tables @ [(name, df)]))\<rparr>)
             else (Inl OperationalError, w')))) (called ''to_sql'' w)"

text \<open>
  \<^verbatim>\<open>open(path, 'wb')\<close> truncates or creates the file, or raises OSError;
  \<^verbatim>\<open>pickle.dump(obj, file)\<close> writes the object into it.
\<close>

definition open_wb :: "string \<Rightarrow> (string, 'w, 'f) io" where
  "open_wb path w =
     (if can_write w path
      then (Inr path, (called ''open'' w)\<lparr>files := (files w)(path \<mapsto> EmptyFile)\<rparr>)
      else (Inl OSError, called ''open'' w))"

definition pickle_dump :: "'w pyobj \<Rightarrow> string \<Rightarrow> (unit, 'w, 'f) io" where
  "pickle_dump obj path w =
     (Inr (), (called ''pickle.dump'' w)\<lparr>files := (files w)(path \<mapsto> PickleFile obj)\<rparr>)"

text \<open>The table of a name in the database at a path, if there is one.\<close>

definition table_at :: "('w, 'f) world \<Rightarrow> string \<Rightarrow> string \<Rightarrow> 'f dataframe option" where
  "table_at w path name =
     (case files w path of
        Some (SqliteFile tables) \<Rightarrow> map_of tables name
      | _ \<Rightarrow> None)"

subsection \<open>Dataframe access\<close>

text \<open>
  \<^verbatim>\<open>df[name]\<close> is the column of that name (KeyError when there is none);
  \<^verbatim>\<open>df.iloc[:, k:]\<close> keeps the columns from position \<open>k\<close> on.
\<close>

fun index_of :: "'a \<Rightarrow> 'a list \<Rightarrow> nat option" where
  "index_of x [] = None"
| "index_of x (y # ys) = (if x = y then Some 0 else map_option Suc (index_of x ys))"

definition get_column :: "'f dataframe \<Rightarrow> string \<Rightarrow> py_error + 'f cell list" where
  "get_column df name =
     (case index_of name (columns df) of
        None \<Rightarrow> Inl KeyError
      | Some i \<Rightarrow> Inr (map (\<lambda>r. r ! i) (rows df)))"

definition iloc_columns_from :: "nat \<Rightarrow> 'f dataframe \<Rightarrow> 'f dataframe" where
  "iloc_columns_from k df = \<lparr>columns = drop k (columns df), rows = map (drop k) (rows df)\<rparr>"

subsection \<open>The functions of the script\<close>

text \<open>
  The functions of scikit-learn and Python that the script calls and that are not
  modelled are parameters: the random split, fitting, prediction, the text report and
  \<^verbatim>\<open>float\<close>. Each may raise.
\<close>

record ('w, 'f) libs =
  nltk_data :: nltk
  pyfloat :: "string \<Rightarrow> 'f option"
  train_test_split ::
    "'f cell list \<Rightarrow> 'f dataframe \<Rightarrow> pyval \<Rightarrow>
       py_error + ('f cell list \<times> 'f cell list \<times> 'f dataframe \<times> 'f dataframe)"
  fit :: "'w GridSearchCV \<Rightarrow> 'f cell list \<Rightarrow> 'f dataframe \<Rightarrow> py_error + 'w GridSearchCV"
  predict :: "'w GridSearchCV \<Rightarrow> 'f cell list \<Rightarrow> py_error + int list list"
  classification_report ::
    "'f dataframe \<Rightarrow> int list list \<Rightarrow> string list \<Rightarrow> py_error + string"

definition load_data ::
  "string \<Rightarrow> ('f cell list \<times> 'f dataframe \<times> string list, 'w, 'f) io" where
  "load_data database_filepath =
     (let engine = create_engine (''sqlite:///'' @ database_filepath) in
      io_bind (read_sql_table ''Categorized_Messages'' engine) (\<lambda>df.
      io_bind (io_of (get_column df ''message'')) (\<lambda>X.
      let Y = iloc_columns_from 4 df;
          category_names = columns (iloc_columns_from 4 df)
      in io_return (X, Y, category_names))))"

definition evaluate_model ::
  "('w, 'f) libs \<Rightarrow> 'w GridSearchCV \<Rightarrow> 'f cell list \<Rightarrow> 'f dataframe \<Rightarrow> string list \<Rightarrow>
     ('f dataframe, 'w, 'f) io" where
  "evaluate_model lib model X_test Y_test category_names =
     io_bind (lib_call ''predict'' (predict lib model X_test)) (\<lambda>Y_pred.
     io_bind (lib_call ''classification_report''
                (classification_report lib Y_test Y_pred category_names)) (\<lambda>shown.
     io_bind (print [Text shown]) (\<lambda>_.
     io_bind (lib_call ''classification_report''
                (classification_report lib Y_test Y_pred category_names)) (\<lambda>report.
     io_bind (io_of (classification_report_df (pyfloat lib) report)) (\<lambda>df_report.
     io_bind (io_of (case best_params model of
                       None \<Rightarrow> Inl AttributeError
                     | Some ps \<Rightarrow> Inr ps)) (\<lambda>ps.
     io_bind (print [Text ([CHR 0x0A] @ ''Best Parameters:''), Params ps]) (\<lambda>_.
     io_return df_report)))))))"

definition save_model :: "'w GridSearchCV \<Rightarrow> string \<Rightarrow> (unit, 'w, 'f) io" where
  "save_model model model_filepath =
     io_bind (io_of (case best_estimator model of
                       None \<Rightarrow> Inl AttributeError
                     | Some (est, learnt) \<Rightarrow> Inr (FittedEstimator est learnt))) (\<lambda>obj.
     io_bind (open_wb model_filepath) (\<lambda>handle.
     pickle_dump obj handle))"

definition save_report :: "'f dataframe \<Rightarrow> (unit, 'w, 'f) io" where
  "save_report df_report =
     (let engine = create_engine (''sqlite:///'' @ ''data/DisasterResponse.db'')
      in to_sql_replace df_report ''df_report'' engine)"

definition usage :: string where
  "usage = ''Please provide the filepath of the disaster messages database ''
     @ ''as the first argument and the filepath of the pickle file to ''
     @ ''save the model to as the second argument. '' @ [CHR 0x0A, CHR 0x0A] @ ''Example: python ''
     @ ''train_classifier.py ../data/DisasterResponse.db classifier.pkl''"

definition main :: "('w, 'f) libs \<Rightarrow> string list \<Rightarrow> (unit, 'w, 'f) io" where
  "main lib argv =
     (if length argv = 3 then
        (let database_filepath = argv ! 1;
             model_filepath = argv ! 2 in
         io_bind (print [Text (''Loading data...'' @ [CHR 0x0A] @ ''    DATABASE: ''
                                @ database_filepath)]) (\<lambda>_.
         io_bind (load_data database_filepath) (\<lambda>(X, Y, category_names).
         io_bind (lib_call ''train_test_split''
                    (train_test_split lib X Y (PyFloat (1 / 5)))) (\<lambda>(X_train, X_test, Y_train, Y_test).
         io_bind (print [Text ''Building model...'']) (\<lambda>_.
         let model = build_model (nltk_data lib) in
         io_bind (print [Text ''Training model...'']) (\<lambda>_.
         io_bind (lib_call ''fit'' (fit lib model X_train Y_train)) (\<lambda>model.
         io_bind (print [Text ''Evaluating model...'']) (\<lambda>_.
         io_bind (evaluate_model lib model X_test Y_test category_names) (\<lambda>df_report.
         io_bind (print [Text (''Saving model...'' @ [CHR 0x0A] @ ''    MODEL: ''
                                @ model_filepath)]) (\<lambda>_.
         io_bind (save_model model model_filepath) (\<lambda>_.
         io_bind (print [Text ''Trained model saved!'']) (\<lambda>_.
         io_bind (save_report df_report) (\<lambda>_.
         print [Text ''Model performance score saved!''])))))))))))))
      else print [Text usage])"



text \<open>
  The part of \<^verbatim>\<open>main\<close> before \<^verbatim>\<open>save_report\<close>, for runs with two arguments: it gives
  the report table that \<^verbatim>\<open>main\<close> goes on to save. It is a name for a part of the body
  of \<open>main\<close>, used to state what holds when \<^verbatim>\<open>save_report\<close> is reached.
\<close>

definition main_before_save_report ::
  "('w, 'f) libs \<Rightarrow> string list \<Rightarrow> ('f dataframe, 'w, 'f) io" where
  "main_before_save_report lib argv =
     (let database_filepath = argv ! 1;
          model_filepath = argv ! 2 in
      io_bind (print [Text (''Loading data...'' @ [CHR 0x0A] @ ''    DATABASE: ''
                             @ database_filepath)]) (\<lambda>_.
      io_bind (load_data database_filepath) (\<lambda>(X, Y, category_names).
      io_bind (lib_call ''train_test_split''
                 (train_test_split lib X Y (PyFloat (1 / 5)))) (\<lambda>(X_train, X_test, Y_train, Y_test).
      io_bind (print [Text ''Building model...'']) (\<lambda>_.
      let model = build_model (nltk_data lib) in
      io_bind (print [Text ''Training model...'']) (\<lambda>_.
      io_bind (lib_call ''fit'' (fit lib model X_train Y_train)) (\<lambda>model.
      io_bind (print [Text ''Evaluating model...'']) (\<lambda>_.
      io_bind (evaluate_model lib model X_test Y_test category_names) (\<lambda>df_report.
      io_bind (print [Text (''Saving model...'' @ [CHR 0x0A] @ ''    MODEL: ''
                             @ model_filepath)]) (\<lambda>_.
      io_bind (save_model model model_filepath) (\<lambda>_.
      io_bind (print [Text ''Trained model saved!'']) (\<lambda>_.
      io_return df_report))))))))))))"

subsection \<open>The text report of the library\<close>

text \<open>
  The layout of the text that the library's \<^verbatim>\<open>classification_report\<close> returns for
  multi-label targets, as the library builds it: a header line, an empty line, one line
  per target name (the name right-aligned, then precision, recall, F1 and support, each
  right-aligned in nine columns after a space), an empty line, and the four lines of
  the micro, macro, weighted and samples averages, each line ended by a line feed. The
  numbers come as the texts that the library has rendered. This is a statement about
  the library, used as a hypothesis on the parameter \<open>classification_report\<close>.
\<close>

definition rjust :: "nat \<Rightarrow> string \<Rightarrow> string" where
  "rjust width s = replicate (width - length s) (CHR '' '') @ s"

definition row_text :: "nat \<Rightarrow> string \<Rightarrow> string list \<Rightarrow> string" where
  "row_text width heading numbers =
     rjust width heading @ '' '' @ concat (map (\<lambda>x. '' '' @ rjust 9 x) numbers)"

definition row_fmt :: "nat \<Rightarrow> string \<Rightarrow> string list \<Rightarrow> string" where
  "row_fmt width heading numbers = row_text width heading numbers @ [CHR 0x0A]"

definition head_fmt :: "nat \<Rightarrow> string" where
  "head_fmt width =
     rjust width [] @ '' ''
       @ concat (map (\<lambda>h. '' '' @ rjust 9 h) [''precision'', ''recall'', ''f1-score'', ''support''])"

definition report_layout :: "string list \<Rightarrow> string list list \<Rightarrow> string list list \<Rightarrow> string" where
  "report_layout target_names cells averages =
     (let width = max (foldr max (map length target_names) 0) 12
      in head_fmt width @ [CHR 0x0A, CHR 0x0A]
         @ concat (map (\<lambda>(name, numbers). row_fmt width name numbers) (zip target_names cells))
         @ [CHR 0x0A]
         @ concat (map (\<lambda>(heading, numbers). row_fmt width heading numbers)
             (zip [''micro avg'', ''macro avg'', ''weighted avg'', ''samples avg''] averages)))"

text \<open>
  A rendered number is a non-empty text of digits and the decimal point. The numbers
  of a report are well-formed when there are four of them for every target name and
  for each of the four averages.
\<close>

definition number_text :: "string \<Rightarrow> bool" where
  "number_text s = (s \<noteq> [] \<and> (\<forall>c \<in> set s. c \<in> set ''0123456789.''))"

definition laid_out :: "string list \<Rightarrow> string list list \<Rightarrow> string list list \<Rightarrow> bool" where
  "laid_out target_names cells averages =
     (length cells = length target_names \<and>
      (\<forall>c \<in> set cells. length c = 4 \<and> (\<forall>x \<in> set c. number_text x)) \<and>
      length averages = 4 \<and>
      (\<forall>a \<in> set averages. length a = 4 \<and> (\<forall>x \<in> set a. number_text x)))"

text \<open>The decimal numeral of a natural number, as \<^verbatim>\<open>str\<close> renders an integer.\<close>

fun decimal :: "nat \<Rightarrow> string" where
  "decimal n =
     (if n < 10 then [char_of (48 + n)]
      else decimal (n div 10) @ [char_of (48 + n mod 10)])"

text \<open>
  The support that the library reports for a category of multi-label targets is the
  number of rows of the true labels that hold a 1 in the column of the category.
\<close>

definition positives :: "'f dataframe \<Rightarrow> nat \<Rightarrow> nat" where
  "positives Y j = length (filter (\<lambda>r. r ! j = Integer 1) (rows Y))"

text \<open>
  Two hypotheses on the library's report function: whenever it returns a text, the text
  has the layout above with well-formed numbers; and moreover the support of every
  category is the decimal numeral of its number of positive rows.
\<close>

definition report_laid_out ::
  "('f dataframe \<Rightarrow> int list list \<Rightarrow> string list \<Rightarrow> py_error + string) \<Rightarrow> bool" where
  "report_laid_out report =
     (\<forall>Y_true Y_pred target_names txt.
        report Y_true Y_pred target_names = Inr txt \<longrightarrow>
        (\<exists>cells averages. txt = report_layout target_names cells averages \<and>
           laid_out target_names cells averages))"

definition report_counts_positives ::
  "('f dataframe \<Rightarrow> int list list \<Rightarrow> string list \<Rightarrow> py_error + string) \<Rightarrow> bool" where
  "report_counts_positives report =
     (\<forall>Y_true Y_pred target_names txt.
        report Y_true Y_pred target_names = Inr txt \<longrightarrow>
        (\<exists>cells averages. txt = report_layout target_names cells averages \<and>
           laid_out target_names cells averages \<and>
           (\<forall>j < length target_names. cells ! j ! 3 = decimal (positives Y_true j))))"

text \<open>
  A category name survives the parsing of the report when it is not empty and holds
  neither a space nor a line feed.
\<close>

definition name_ok :: "string \<Rightarrow> bool" where
  "name_ok n = (n \<noteq> [] \<and> CHR '' '' \<notin> set n \<and> CHR 0x0A \<notin> set n)"

subsection \<open>An example run\<close>

text \<open>
  A small instance for the examples. The table of messages has the four leading columns
  of the real table and the two categories \<^verbatim>\<open>water\<close> and \<^verbatim>\<open>food\<close>. The split keeps the
  last fifth of the rows (rounded up) for the test, which is one of the splits that the
  random function can return. Fitting stores the pipeline as the best estimator;
  prediction answers "both categories" for every message. The report is the text that
  the library prints when the prediction equals the truth, every category has a
  positive test row and every test row has a positive category: every metric is 1.00,
  the support of a category is its number of positive test rows, and the support of
  the averages is their sum.
\<close>

definition example_report ::
  "'f dataframe \<Rightarrow> int list list \<Rightarrow> string list \<Rightarrow> py_error + string" where
  "example_report Y_true Y_pred target_names =
     Inr (report_layout target_names
            (map (\<lambda>j. [''1.00'', ''1.00'', ''1.00'', decimal (positives Y_true j)])
               [0 ..< length target_names])
            (replicate 4 [''1.00'', ''1.00'', ''1.00'',
               decimal (sum_list (map (positives Y_true) [0 ..< length target_names]))]))"

definition example_lib :: "(unit, rat) libs" where
  "example_lib =
     \<lparr>nltk_data = nltk_fragment,
      pyfloat = dec_float,
      train_test_split = (\<lambda>X Y test_size.
         let k = length X - (length X + 4) div 5
         in Inr (take k X, drop k X, Y\<lparr>rows := take k (rows Y)\<rparr>, Y\<lparr>rows := drop k (rows Y)\<rparr>)),
      fit = (\<lambda>model X Y.
         Inr (model\<lparr>best_estimator := Some (estimator model, ()),
                    best_params := Some [(''text_pipeline__vect__max_features'', PyNone)]\<rparr>)),
      predict = (\<lambda>model X. Inr (map (\<lambda>_. [1, 1]) X)),
      classification_report = example_report\<rparr>"

definition example_messages :: "rat dataframe" where
  "example_messages =
     \<lparr>columns = [''id'', ''message'', ''original'', ''genre'', ''water'', ''food''],
      rows =
        [[Integer 1, Str ''water needed urgently'', Str [], Str ''direct'', Integer 1, Integer 0],
         [Integer 2, Str ''food shortage reported'', Str [], Str ''direct'', Integer 0, Integer 1],
         [Integer 3, Str ''the road is open'', Str [], Str ''news'', Integer 0, Integer 0],
         [Integer 4, Str ''no water since monday'', Str [], Str ''direct'', Integer 1, Integer 0],
         [Integer 5, Str ''we need water and food'', Str [], Str ''direct'', Integer 1, Integer 1]]\<rparr>"

definition example_world :: "(unit, rat) world" where
  "example_world =
     \<lparr>stdout = [],
      files = [''messages.db'' \<mapsto> SqliteFile [(''Categorized_Messages'', example_messages)]],
      can_write = (\<lambda>path. True),
      calls = []\<rparr>"

definition example_argv :: "string list" where
  "example_argv = [''train_classifier.py'', ''messages.db'', ''classifier.pkl'']"


section \<open>Properties\<close>

subsection \<open>Parsing the text report\<close>

lemma py_slice_2_m6: "py_slice 2 (- 6) xs = take (length xs - 8) (drop 2 xs)"
proof -
  have a: "slice_bound (length xs) 2 = min 2 (length xs)"
    by (simp add: slice_bound_def)
  have b: "slice_bound (length xs) (- 6) = length xs - 6"
    by (simp add: slice_bound_def)
  show ?thesis
  proof (cases "2 \<le> length xs")
    case True
    then have "min 2 (length xs) = 2" by simp
    then show ?thesis by (simp add: py_slice_def a b)
  next
    case False
    then show ?thesis by (simp add: py_slice_def a b)
  qed
qed


lemma report_row_ok:
  "fields_parse pf (space_fields line) \<Longrightarrow>
     report_row pf line = Inr (zip report_columns (cells_of_fields pf (space_fields line)))"
  by (auto simp: report_row_def fields_parse_def report_columns_def cells_of_fields_def
      space_fields_def [symmetric] Let_def bind_def py_get_def float_of_def dict_set_def
      split: option.splits)

lemma report_row_bad:
  "\<not> fields_parse pf (space_fields line) \<Longrightarrow>
     report_row pf line = Inl IndexError \<or> report_row pf line = Inl ValueError"
  by (auto simp: report_row_def fields_parse_def space_fields_def [symmetric] Let_def
      bind_def py_get_def float_of_def dict_set_def split: option.splits)

lemma report_loop_ok:
  "\<forall>l \<in> set ls. fields_parse pf (space_fields l) \<Longrightarrow>
     report_loop pf ls acc =
       Inr (acc @ map (\<lambda>l. zip report_columns (cells_of_fields pf (space_fields l))) ls)"
  by (induction ls arbitrary: acc) (simp_all add: report_row_ok)

lemma report_loop_bad:
  "\<not> (\<forall>l \<in> set ls. fields_parse pf (space_fields l)) \<Longrightarrow>
     report_loop pf ls acc = Inl IndexError \<or> report_loop pf ls acc = Inl ValueError"
proof (induction ls arbitrary: acc)
  case Nil
  then show ?case by simp
next
  case (Cons l ls)
  show ?case
  proof (cases "fields_parse pf (space_fields l)")
    case True
    with Cons.prems have "\<not> (\<forall>l \<in> set ls. fields_parse pf (space_fields l))" by simp
    from Cons.IH [OF this] show ?thesis by (simp add: report_row_ok [OF True])
  next
    case False
    from report_row_bad [OF False] show ?thesis by auto
  qed
qed

lemma zip_report_columns:
  "map snd (zip report_columns (cells_of_fields pf fs)) = cells_of_fields pf fs"
  "map fst (zip report_columns (cells_of_fields pf fs)) = report_columns"
  by (simp_all add: report_columns_def cells_of_fields_def)

lemma DataFrame_from_rows:
  "DataFrame_from_dict (map (\<lambda>l. zip report_columns (cells_of_fields pf (space_fields l))) ls) =
     \<lparr>columns = (if ls = [] then [] else report_columns),
      rows = map (\<lambda>l. cells_of_fields pf (space_fields l)) ls\<rparr>"
  by (cases ls) (simp_all add: DataFrame_from_dict_def zip_report_columns o_def)

lemma classification_report_df_ok:
  assumes "\<forall>l \<in> set (take (length (str_split (CHR 0x0A) report) - 8)
                          (drop 2 (str_split (CHR 0x0A) report))).
             fields_parse pf (space_fields l)"
  shows "classification_report_df pf report =
     Inr \<lparr>columns = (if length (str_split (CHR 0x0A) report) \<le> 8 then [] else report_columns),
          rows = map (\<lambda>l. cells_of_fields pf (space_fields l))
                   (take (length (str_split (CHR 0x0A) report) - 8)
                      (drop 2 (str_split (CHR 0x0A) report)))\<rparr>"
proof -
  let ?lines = "str_split (CHR 0x0A) report"
  let ?ls = "take (length ?lines - 8) (drop 2 ?lines)"
  have "length ?ls = length ?lines - 8" by simp
  then have e: "?ls = [] \<longleftrightarrow> length ?lines \<le> 8"
    by (metis diff_is_0_eq length_0_conv)
  show ?thesis
    using report_loop_ok [OF assms, of "[]"] e
    by (simp add: classification_report_df_def py_slice_2_m6 Let_def bind_def
        DataFrame_from_rows del: take_eq_Nil)
qed

lemma classification_report_df_bad:
  assumes "\<not> (\<forall>l \<in> set (take (length (str_split (CHR 0x0A) report) - 8)
                          (drop 2 (str_split (CHR 0x0A) report))).
             fields_parse pf (space_fields l))"
  shows "classification_report_df pf report = Inl IndexError \<or>
         classification_report_df pf report = Inl ValueError"
  using report_loop_bad [OF assms, of "[]"]
  by (auto simp: classification_report_df_def py_slice_2_m6 Let_def bind_def)

text \<open>
  Claim C7, as stated, at a line that holds a tab: the line
  \<^verbatim>\<open>a<TAB>1 2 3 4 5\<close> is at index 2 of a report of nine lines. Its first five
  whitespace-separated fields are \<^verbatim>\<open>a\<close>, \<^verbatim>\<open>1\<close>, \<^verbatim>\<open>2\<close>, \<^verbatim>\<open>3\<close>, \<^verbatim>\<open>4\<close>, but the row
  that \<^verbatim>\<open>classification_report_df\<close> builds has the class \<^verbatim>\<open>a<TAB>1\<close> and the numbers
  2, 3, 4, 5: the script cuts the line at space characters only.
\<close>

theorem classification_report_df_tab_counterexample:
  "classification_report_df dec_float
      (''h'' @ [CHR 0x0A, CHR 0x0A] @ ''a'' @ [CHR 0x09] @ ''1 2 3 4 5'' @ replicate 6 (CHR 0x0A))
     = Inr \<lparr>columns = [''class'', ''precision'', ''recall'', ''f1_score'', ''support''],
            rows = [[Str (''a'' @ [CHR 0x09] @ ''1''), Num 2, Num 3, Num 4, Num 5]]\<rparr>
   \<and> str_split (CHR 0x0A)
        (''h'' @ [CHR 0x0A, CHR 0x0A] @ ''a'' @ [CHR 0x09] @ ''1 2 3 4 5'' @ replicate 6 (CHR 0x0A)) ! 2
     = ''a'' @ [CHR 0x09] @ ''1 2 3 4 5''
   \<and> take 5 (whitespace_fields (''a'' @ [CHR 0x09] @ ''1 2 3 4 5''))
     = [''a'', ''1'', ''2'', ''3'', ''4'']"
  by code_simp

text \<open>
  Claim C7, amended: \<^verbatim>\<open>classification_report_df\<close> reads the lines of the report from
  index 2 up to but excluding the sixth-from-last (the first two lines and the last six
  are skipped, by fixed offsets). When it returns a dataframe, the dataframe has one row
  for each of these lines, in order: row \<open>i\<close> comes from line \<open>i + 2\<close>, that line has at
  least five non-empty fields separated by the space character (any other whitespace is
  part of a field), \<^verbatim>\<open>float\<close> accepts the second to the fifth of them, and the row holds
  the columns class, precision, recall, f1_score, support taken from the first five.
\<close>

theorem classification_report_df_fixed_offsets:
  assumes "classification_report_df pf report = Inr df"
  shows "length (rows df) = length (str_split (CHR 0x0A) report) - 8 \<and>
     (rows df \<noteq> [] \<longrightarrow> columns df = [''class'', ''precision'', ''recall'', ''f1_score'', ''support'']) \<and>
     (\<forall>i < length (rows df).
        fields_parse pf (space_fields (str_split (CHR 0x0A) report ! (i + 2))) \<and>
        rows df ! i = cells_of_fields pf (space_fields (str_split (CHR 0x0A) report ! (i + 2))))"
proof -
  let ?lines = "str_split (CHR 0x0A) report"
  let ?ls = "take (length ?lines - 8) (drop 2 ?lines)"
  have ok: "\<forall>l \<in> set ?ls. fields_parse pf (space_fields l)"
  proof (rule ccontr)
    assume "\<not> ?thesis"
    from classification_report_df_bad [OF this] assms show False by auto
  qed
  from classification_report_df_ok [OF ok] assms
  have df: "df = \<lparr>columns = (if length ?lines \<le> 8 then [] else report_columns),
          rows = map (\<lambda>l. cells_of_fields pf (space_fields l)) ?ls\<rparr>"
    by simp
  have len: "length (rows df) = length ?lines - 8" unfolding df by simp
  have cols: "rows df \<noteq> [] \<longrightarrow>
      columns df = [''class'', ''precision'', ''recall'', ''f1_score'', ''support'']"
    using len unfolding df by (auto simp: report_columns_def)
  have nth: "\<forall>i < length (rows df). ?ls ! i = ?lines ! (i + 2)"
    using len by (auto simp: add.commute)
  have lens: "length (rows df) = length ?ls" unfolding df by simp
  have mem: "\<forall>i < length (rows df). ?ls ! i \<in> set ?ls"
    unfolding lens using nth_mem by blast
  have rows: "\<forall>i < length (rows df).
        fields_parse pf (space_fields (?lines ! (i + 2))) \<and>
        rows df ! i = cells_of_fields pf (space_fields (?lines ! (i + 2)))"
  proof (intro allI impI)
    fix i assume i: "i < length (rows df)"
    with ok mem nth have "fields_parse pf (space_fields (?lines ! (i + 2)))"
      by metis
    moreover from i have "i < length ?ls" unfolding df by simp
    then have "rows df ! i = cells_of_fields pf (space_fields (?ls ! i))"
      unfolding df by simp
    ultimately show "fields_parse pf (space_fields (?lines ! (i + 2))) \<and>
        rows df ! i = cells_of_fields pf (space_fields (?lines ! (i + 2)))"
      using nth i by simp
  qed
  from len cols rows show ?thesis by (intro conjI)
qed

theorem classification_report_df_fixed_offsets_witness:
  "classification_report_df dec_float
      (''h'' @ [CHR 0x0A, CHR 0x0A] @ ''water 0.50 1.00 0.67 3'' @ replicate 6 (CHR 0x0A))
     = Inr \<lparr>columns = [''class'', ''precision'', ''recall'', ''f1_score'', ''support''],
            rows = [[Str ''water'', Num (1 / 2), Num 1, Num (67 / 100), Num 3]]\<rparr>
   \<and> length (rows \<lparr>columns = [''class'', ''precision'', ''recall'', ''f1_score'', ''support''],
            rows = [[Str ''water'', Num (1 / 2 :: rat), Num 1, Num (67 / 100), Num 3]]\<rparr>)
     = length (str_split (CHR 0x0A)
         (''h'' @ [CHR 0x0A, CHR 0x0A] @ ''water 0.50 1.00 0.67 3'' @ replicate 6 (CHR 0x0A))) - 8"
proof -
  have h: "classification_report_df dec_float
      (''h'' @ [CHR 0x0A, CHR 0x0A] @ ''water 0.50 1.00 0.67 3'' @ replicate 6 (CHR 0x0A))
     = Inr \<lparr>columns = [''class'', ''precision'', ''recall'', ''f1_score'', ''support''],
            rows = [[Str ''water'', Num (1 / 2), Num 1, Num (67 / 100), Num 3]]\<rparr>"
    by code_simp
  from classification_report_df_fixed_offsets [OF h] h show ?thesis by blast
qed




subsection \<open>Text normalisation\<close>

lemma lower_char_alnum: "alnum (lower_char c) \<Longrightarrow> lower_alnum (lower_char c)"
  by (auto simp: alnum_def lower_alnum_def lower_char_def Let_def split: if_splits)

lemma normal_text_normalised: "normal_text (re_sub_non_alnum (lower text))"
  by (auto simp: normal_text_def re_sub_non_alnum_def lower_def lower_char_alnum)

lemma split_on_pieces_all:
  "\<forall>w \<in> set (split_on p s). \<forall>c \<in> set w. c \<in> set s \<and> \<not> p c"
  by (induction s) (auto split: list.splits)

lemma split_on_pieces:
  "w \<in> set (split_on p s) \<Longrightarrow> c \<in> set w \<Longrightarrow> c \<in> set s \<and> \<not> p c"
  using split_on_pieces_all by blast

lemma fragment_keeps: "keeps_lower_alnum nltk_fragment"
proof -
  have tok: "lower_alnum_token w"
    if "normal_text s" "w \<in> set (fragment_word_tokenize s)" for s w
  proof -
    from that(2) have w: "w \<noteq> []" "w \<in> set (split_on (\<lambda>c. c = CHR '' '') s)"
      by (auto simp: fragment_word_tokenize_def filter_None_def str_split_def)
    have "lower_alnum c" if "c \<in> set w" for c
      using split_on_pieces [OF w(2) that] \<open>normal_text s\<close> by (auto simp: normal_text_def)
    with w(1) show ?thesis by (simp add: lower_alnum_token_def)
  qed
  have b: "lower_alnum_token ''bottle''" "lower_alnum_token ''can''"
    by (simp_all add: lower_alnum_token_def lower_alnum_def)
  have lem: "lower_alnum_token (fragment_lemmatize w p)" if "lower_alnum_token w" for w p
    using that b by (simp add: fragment_lemmatize_def)
  show ?thesis
    using tok lem by (simp add: keeps_lower_alnum_def nltk_fragment_def)
qed

text \<open>
  Claim C1, as stated, at the input \<^verbatim>\<open>cans\<close>: the token \<^verbatim>\<open>cans\<close> is not a stop word and
  passes the filter; the lemmatizer then turns it into \<^verbatim>\<open>can\<close>, which is on NLTK's
  English stop-word list. The output holds a stop word, because the stop words are
  dropped before the lemmatization and not after it.
\<close>

theorem tokenize_stop_word_counterexample:
  "tokenize nltk_fragment ''cans'' = [''can'']
   \<and> ''can'' \<in> set (stopwords_english nltk_fragment)"
  by code_simp

text \<open>
  Claim C1, amended: for every input string, \<^verbatim>\<open>tokenize\<close> applies the steps case-fold,
  replace every non-alphanumeric character by a space, tokenize, drop the English stop
  words, lemmatize each remaining token as a noun and then the result as a verb, in
  that order. The text handed to the tokenizer holds lowercase letters, digits and
  spaces only (no punctuation); every output token is the verb lemma of the noun lemma
  of a token that is not a stop word (the lemma itself may be one); and the output
  tokens are non-empty lowercase alphanumeric tokens whenever the tokenizer gives such
  tokens on such a text and the lemmatizer maps such tokens to such tokens. The input
  \<^verbatim>\<open>Help! We NEED water, 2 bottles.\<close> yields \<^verbatim>\<open>help\<close>, \<^verbatim>\<open>need\<close>, \<^verbatim>\<open>water\<close>, \<^verbatim>\<open>2\<close>,
  \<^verbatim>\<open>bottle\<close>, without \<^verbatim>\<open>we\<close>, given that NLTK cuts the normalised text at its spaces,
  lists \<^verbatim>\<open>we\<close> and none of the other five words as a stop word, and lemmatizes
  \<^verbatim>\<open>bottles\<close> to \<^verbatim>\<open>bottle\<close> and the other words to themselves.
\<close>

theorem tokenize_steps:
  "normal_text (re_sub_non_alnum (lower text))
   \<and> tokenize nl text =
       map (\<lambda>w. lemmatize nl w Verb)
         (map (\<lambda>w. lemmatize nl w Noun)
           (filter (\<lambda>w. w \<notin> set (stopwords_english nl))
             (word_tokenize nl (re_sub_non_alnum (lower text)))))
   \<and> (\<forall>t \<in> set (tokenize nl text).
         \<exists>w \<in> set (word_tokenize nl (re_sub_non_alnum (lower text))).
           w \<notin> set (stopwords_english nl) \<and> t = lemmatize nl (lemmatize nl w Noun) Verb)
   \<and> (keeps_lower_alnum nl \<longrightarrow> (\<forall>t \<in> set (tokenize nl text). lower_alnum_token t))
   \<and> (word_tokenize nl ''help  we need water  2 bottles ''
         = [''help'', ''we'', ''need'', ''water'', ''2'', ''bottles'']
       \<and> ''we'' \<in> set (stopwords_english nl)
       \<and> set [''help'', ''need'', ''water'', ''2'', ''bottles''] \<inter> set (stopwords_english nl) = {}
       \<and> map (\<lambda>w. lemmatize nl w Noun) [''help'', ''need'', ''water'', ''2'', ''bottles'']
         = [''help'', ''need'', ''water'', ''2'', ''bottle'']
       \<and> map (\<lambda>w. lemmatize nl w Verb) [''help'', ''need'', ''water'', ''2'', ''bottle'']
         = [''help'', ''need'', ''water'', ''2'', ''bottle'']
       \<longrightarrow> tokenize nl ''Help! We NEED water, 2 bottles.''
             = [''help'', ''need'', ''water'', ''2'', ''bottle''])"
proof -
  let ?norm = "re_sub_non_alnum (lower text)"
  have eq: "tokenize nl s =
       map (\<lambda>w. lemmatize nl w Verb)
         (map (\<lambda>w. lemmatize nl w Noun)
           (filter (\<lambda>w. w \<notin> set (stopwords_english nl))
             (word_tokenize nl (re_sub_non_alnum (lower s)))))" for s
    by (simp add: tokenize_def Let_def)
  have src: "\<forall>t \<in> set (tokenize nl text).
         \<exists>w \<in> set (word_tokenize nl ?norm).
           w \<notin> set (stopwords_english nl) \<and> t = lemmatize nl (lemmatize nl w Noun) Verb"
    unfolding eq by auto
  have keep: "\<forall>t \<in> set (tokenize nl text). lower_alnum_token t" if k: "keeps_lower_alnum nl"
  proof
    fix t assume "t \<in> set (tokenize nl text)"
    with src obtain w where w: "w \<in> set (word_tokenize nl ?norm)"
      "t = lemmatize nl (lemmatize nl w Noun) Verb" by blast
    from k normal_text_normalised w(1) have "lower_alnum_token w"
      unfolding keeps_lower_alnum_def by blast
    with k show "lower_alnum_token t"
      unfolding keeps_lower_alnum_def w(2) by blast
  qed
  have norm: "re_sub_non_alnum (lower ''Help! We NEED water, 2 bottles.'')
      = ''help  we need water  2 bottles ''"
    by code_simp
  have ex: "tokenize nl ''Help! We NEED water, 2 bottles.''
             = [''help'', ''need'', ''water'', ''2'', ''bottle'']"
    if "word_tokenize nl ''help  we need water  2 bottles ''
         = [''help'', ''we'', ''need'', ''water'', ''2'', ''bottles'']"
       "''we'' \<in> set (stopwords_english nl)"
       "set [''help'', ''need'', ''water'', ''2'', ''bottles''] \<inter> set (stopwords_english nl) = {}"
       "map (\<lambda>w. lemmatize nl w Noun) [''help'', ''need'', ''water'', ''2'', ''bottles'']
         = [''help'', ''need'', ''water'', ''2'', ''bottle'']"
       "map (\<lambda>w. lemmatize nl w Verb) [''help'', ''need'', ''water'', ''2'', ''bottle'']
         = [''help'', ''need'', ''water'', ''2'', ''bottle'']"
  proof -
    from that(2,3) have "filter (\<lambda>w. w \<notin> set (stopwords_english nl))
        [''help'', ''we'', ''need'', ''water'', ''2'', ''bottles'']
        = [''help'', ''need'', ''water'', ''2'', ''bottles'']"
      by simp
    then show ?thesis
      unfolding eq norm that(1) using that(4,5) by simp
  qed
  have keep': "keeps_lower_alnum nl \<longrightarrow> (\<forall>t \<in> set (tokenize nl text). lower_alnum_token t)"
    using keep by (rule impI)
  have ex': "word_tokenize nl ''help  we need water  2 bottles ''
         = [''help'', ''we'', ''need'', ''water'', ''2'', ''bottles'']
       \<and> ''we'' \<in> set (stopwords_english nl)
       \<and> set [''help'', ''need'', ''water'', ''2'', ''bottles''] \<inter> set (stopwords_english nl) = {}
       \<and> map (\<lambda>w. lemmatize nl w Noun) [''help'', ''need'', ''water'', ''2'', ''bottles'']
         = [''help'', ''need'', ''water'', ''2'', ''bottle'']
       \<and> map (\<lambda>w. lemmatize nl w Verb) [''help'', ''need'', ''water'', ''2'', ''bottle'']
         = [''help'', ''need'', ''water'', ''2'', ''bottle'']
       \<longrightarrow> tokenize nl ''Help! We NEED water, 2 bottles.''
             = [''help'', ''need'', ''water'', ''2'', ''bottle'']"
    by (intro impI, elim conjE) (rule ex)
  from normal_text_normalised eq src keep' ex' show ?thesis by (intro conjI)
qed

theorem tokenize_steps_witness:
  "tokenize nltk_fragment ''Help! We NEED water, 2 bottles.''
     = [''help'', ''need'', ''water'', ''2'', ''bottle'']"
proof -
  have h: "word_tokenize nltk_fragment ''help  we need water  2 bottles ''
         = [''help'', ''we'', ''need'', ''water'', ''2'', ''bottles'']
       \<and> ''we'' \<in> set (stopwords_english nltk_fragment)
       \<and> set [''help'', ''need'', ''water'', ''2'', ''bottles''] \<inter> set (stopwords_english nltk_fragment) = {}
       \<and> map (\<lambda>w. lemmatize nltk_fragment w Noun) [''help'', ''need'', ''water'', ''2'', ''bottles'']
         = [''help'', ''need'', ''water'', ''2'', ''bottle'']
       \<and> map (\<lambda>w. lemmatize nltk_fragment w Verb) [''help'', ''need'', ''water'', ''2'', ''bottle'']
         = [''help'', ''need'', ''water'', ''2'', ''bottle'']"
    by code_simp
  from tokenize_steps [of "''Help! We NEED water, 2 bottles.''" nltk_fragment] h fragment_keeps
  show ?thesis by blast
qed

subsection \<open>The model\<close>

lemma partition_dunder_keys:
  "partition_dunder ''text_pipeline__vect__max_features'' = (''text_pipeline'', Some ''vect__max_features'')"
  "partition_dunder ''vect__max_features'' = (''vect'', Some ''max_features'')"
  by simp_all

lemma max_df_half: "max_df_drops (PyFloat (1 / 2)) n_docs doc_count = (n_docs < 2 * doc_count)"
proof -
  have "((1 / 2 :: rat) * of_nat n_docs < of_nat doc_count) = ((of_nat n_docs :: rat) < of_nat (2 * doc_count))"
    by (simp add: mult.commute)
  also have "\<dots> = (n_docs < 2 * doc_count)"
    by (rule of_nat_less_iff)
  finally show ?thesis by (simp add: max_df_drops_def)
qed

text \<open>
  Claim C5: \<^verbatim>\<open>build_model\<close> constructs a pipeline whose vectorizer uses unigrams and
  bigrams (\<^verbatim>\<open>ngram_range=(1, 2)\<close>) with a document-frequency ceiling of 0.5, under which
  a term is dropped exactly when it occurs in more than half of the documents. The
  pipeline is wrapped in a grid search (the library's cross-validated \<^verbatim>\<open>GridSearchCV\<close>)
  whose parameter grid has the single key of the vocabulary-size cap with the two
  values \<^verbatim>\<open>None\<close> and 10000, so that the two configurations it tries differ in that cap
  only; the search is scored by \<^verbatim>\<open>f1_macro\<close> and configured with \<^verbatim>\<open>n_jobs=1\<close>.
\<close>

theorem build_model_configuration:
  "estimator (build_model nl :: 'w GridSearchCV) =
     Pipeline [
       (''text_pipeline'', Pipeline [
          (''vect'', CountVectorizer
             \<lparr>tokenizer = tokenize nl, ngram_range = PyTuple [PyInt 1, PyInt 2],
              max_df = PyFloat (1 / 2), max_features = PyNone\<rparr>),
          (''tfidf'', TfidfTransformer)]),
       (''multi_clf'', MultiOutputClassifier (OneVsRestClassifier LinearSVC))]
   \<and> max_df_drops (PyFloat (1 / 2)) n_docs doc_count = (n_docs < 2 * doc_count)
   \<and> param_grid (build_model nl :: 'w GridSearchCV) =
       [(''text_pipeline__vect__max_features'', [PyNone, PyInt 10000])]
   \<and> candidates (build_model nl :: 'w GridSearchCV) =
       [Inr (Pipeline [
          (''text_pipeline'', Pipeline [
             (''vect'', CountVectorizer
                \<lparr>tokenizer = tokenize nl, ngram_range = PyTuple [PyInt 1, PyInt 2],
                 max_df = PyFloat (1 / 2), max_features = PyNone\<rparr>),
             (''tfidf'', TfidfTransformer)]),
          (''multi_clf'', MultiOutputClassifier (OneVsRestClassifier LinearSVC))]),
        Inr (Pipeline [
          (''text_pipeline'', Pipeline [
             (''vect'', CountVectorizer
                \<lparr>tokenizer = tokenize nl, ngram_range = PyTuple [PyInt 1, PyInt 2],
                 max_df = PyFloat (1 / 2), max_features = PyInt 10000\<rparr>),
             (''tfidf'', TfidfTransformer)]),
          (''multi_clf'', MultiOutputClassifier (OneVsRestClassifier LinearSVC))])]
   \<and> scoring (build_model nl :: 'w GridSearchCV) = ''f1_macro''
   \<and> n_jobs (build_model nl :: 'w GridSearchCV) = 1"
proof (intro conjI)
  show "max_df_drops (PyFloat (1 / 2)) n_docs doc_count = (n_docs < 2 * doc_count)"
    by (rule max_df_half)
qed (simp_all add: build_model_def Let_def candidates_def partition_dunder_keys)

subsection \<open>The run of the script: library calls and files\<close>





















lemma io_bind_assoc: "io_bind (io_bind m k) h = io_bind m (\<lambda>x. io_bind (k x) h)"
  by (rule ext) (simp add: io_bind_def split: prod.splits sum.splits)

lemma io_bind_return: "io_bind (io_return x) k = k x"
  by (rule ext) (simp add: io_bind_def io_return_def)

lemma main_split:
  "length argv = 3 \<Longrightarrow>
     main lib argv =
       io_bind (main_before_save_report lib argv) (\<lambda>df_report.
       io_bind (save_report df_report) (\<lambda>_.
       print [Text ''Model performance score saved!'']))"
  by (simp add: main_def main_before_save_report_def Let_def split_def io_bind_assoc io_bind_return)

lemma io_bind_InrD:
  "io_bind m k w = (Inr y, w') \<Longrightarrow> \<exists>x w1. m w = (Inr x, w1) \<and> k x w1 = (Inr y, w')"
  by (auto simp: io_bind_def split: prod.splits sum.splits)

lemma io_bind_Inl:
  "m w = (Inl e, w1) \<Longrightarrow> io_bind m k w = (Inl e, w1)"
  by (simp add: io_bind_def)

lemma io_bind_Inr:
  "m w = (Inr x, w1) \<Longrightarrow> io_bind m k w = k x w1"
  by (simp add: io_bind_def)

lemma print_eq: "print a w = (Inr (), w\<lparr>stdout := stdout w @ [a]\<rparr>)"
  by (simp add: print_def)

lemma engine_path_sqlite: "engine_path (create_engine (''sqlite:///'' @ p)) = Inr p"
  by (simp add: engine_path_def create_engine_def)

lemma save_model_success:
  assumes "save_model model p w = (Inr u, w')"
  shows "\<exists>est learnt. best_estimator model = Some (est, learnt) \<and>
           files w' = (files w)(p \<mapsto> PickleFile (FittedEstimator est learnt))"
  using assms
  by (auto simp: save_model_def io_bind_def io_of_def open_wb_def pickle_dump_def called_def
      split: option.splits if_splits prod.splits sum.splits)


lemma connect_files:
  "connect con w = (r, w') \<Longrightarrow> engine_path con = Inr path \<Longrightarrow>
     (\<forall>q. q \<noteq> path \<longrightarrow> files w' q = files w q) \<and> can_write w' = can_write w \<and>
     (case r of
        Inl e \<Rightarrow> files w' = files w
      | Inr tables \<Rightarrow> files w' path = Some (SqliteFile tables) \<and>
          (\<forall>n. map_of tables n = table_at w path n))"
  by (auto simp: connect_def table_at_def split: option.splits file_content.splits if_splits)

lemma connect_pickle:
  "engine_path con = Inr path \<Longrightarrow> files w path = Some (PickleFile obj) \<Longrightarrow>
     connect con w = (Inl DatabaseError, w)"
  by (simp add: connect_def)

lemma save_report_other_files:
  assumes "save_report df w = (r, w')" and "q \<noteq> ''data/DisasterResponse.db''"
  shows "files w' q = files w q"
proof -
  let ?con = "create_engine (''sqlite:///'' @ ''data/DisasterResponse.db'')"
  have ep: "engine_path ?con = Inr ''data/DisasterResponse.db''"
    by (rule engine_path_sqlite)
  obtain r1 w1 where c: "connect ?con (called ''to_sql'' w) = (r1, w1)"
    by (cases "connect ?con (called ''to_sql'' w)")
  from connect_files [OF c ep] assms(2)
  have f: "files w1 q = files w q" by (simp add: called_def)
  show ?thesis
    using assms c f ep
    by (auto simp: save_report_def to_sql_replace_def Let_def io_bind_def
        split: sum.splits if_splits)
qed

lemma save_report_pickle:
  assumes "files w ''data/DisasterResponse.db'' = Some (PickleFile obj)"
  shows "fst (save_report df w) = Inl DatabaseError \<and> files (snd (save_report df w)) = files w"
proof -
  let ?con = "create_engine (''sqlite:///'' @ ''data/DisasterResponse.db'')"
  have ep: "engine_path ?con = Inr ''data/DisasterResponse.db''"
    by (rule engine_path_sqlite)
  have "connect ?con (called ''to_sql'' w) = (Inl DatabaseError, called ''to_sql'' w)"
    using assms by (intro connect_pickle [OF ep]) (simp add: called_def)
  then show ?thesis
    by (simp add: save_report_def to_sql_replace_def Let_def io_bind_def called_def)
qed

lemma map_of_replaced:
  "map_of (filter (\<lambda>t. fst t \<noteq> name) tables @ [(name, df)]) n =
     (if n = name then Some df else map_of tables n)"
  by (induction tables) auto

lemma save_report_success:
  assumes "save_report df w = (Inr u, w')"
  shows "\<exists>tables. files w' ''data/DisasterResponse.db'' = Some (SqliteFile tables) \<and>
           filter (\<lambda>t. fst t = ''df_report'') tables = [(''df_report'', df)] \<and>
           (\<forall>n. n \<noteq> ''df_report'' \<longrightarrow>
              map_of tables n = table_at w ''data/DisasterResponse.db'' n)"
proof -
  let ?con = "create_engine (''sqlite:///'' @ ''data/DisasterResponse.db'')"
  let ?p = "''data/DisasterResponse.db''"
  have ep: "engine_path ?con = Inr ?p"
    by (rule engine_path_sqlite)
  obtain r1 w1 where c: "connect ?con (called ''to_sql'' w) = (r1, w1)"
    by (cases "connect ?con (called ''to_sql'' w)")
  from assms c ep obtain old where r1: "r1 = Inr old"
    and w': "files w' = (files w1)(?p \<mapsto> SqliteFile (filter (\<lambda>t. fst t \<noteq> ''df_report'') old @ [(''df_report'', df)]))"
    by (auto simp: save_report_def to_sql_replace_def Let_def io_bind_def
        split: sum.splits if_splits)
  from connect_files [OF c ep] r1
  have old: "\<forall>n. map_of old n = table_at w ?p n"
    by (simp add: called_def table_at_def)
  let ?new = "filter (\<lambda>t. fst t \<noteq> ''df_report'') old @ [(''df_report'', df)]"
  have 1: "files w' ?p = Some (SqliteFile ?new)" by (simp add: w')
  have 2: "filter (\<lambda>t. fst t = ''df_report'') ?new = [(''df_report'', df)]"
    by (induction old) auto
  have 3: "\<forall>n. n \<noteq> ''df_report'' \<longrightarrow> map_of ?new n = table_at w ?p n"
    using old map_of_replaced [of "''df_report''" old df] by (simp del: map_of_append)
  from 1 2 3 show ?thesis by blast
qed

lemma before_success:
  fixes w :: "('w, 'f) world"
  assumes "main_before_save_report lib argv w = (Inr df, w5)"
  shows "\<exists>X Y names (w0 :: ('w, 'f) world) w1 X_train X_test Y_train Y_test model wa wb est learnt.
    load_data (argv ! 1) w0 = (Inr (X, Y, names), w1) \<and>
    train_test_split lib X Y (PyFloat (1 / 5)) = Inr (X_train, X_test, Y_train, Y_test) \<and>
    fit lib (build_model (nltk_data lib)) X_train Y_train = Inr model \<and>
    evaluate_model lib model X_test Y_test names wa = (Inr df, wb) \<and>
    best_estimator model = Some (est, learnt) \<and>
    files w5 (argv ! 2) = Some (PickleFile (FittedEstimator est learnt))"
  using assms unfolding main_before_save_report_def Let_def
  apply (clarsimp dest!: io_bind_InrD simp: print_eq lib_call_def io_return_def split: prod.splits)
  apply (drule save_model_success)
  apply clarsimp
  apply (intro exI conjI; assumption)
  done

lemma before_success_report:
  fixes w :: "('w, 'f) world"
  assumes "main_before_save_report lib argv w = (Inr df, w5)"
  shows "\<exists>model X_test Y_test names (wa :: ('w, 'f) world) wb.
           evaluate_model lib model X_test Y_test names wa = (Inr df, wb)"
  using before_success [OF assms] by blast

lemma main_success:
  fixes w :: "('w, 'f) world"
  assumes "length argv = 3" and "main lib argv w = (Inr u, w')"
  shows "\<exists>df w5 w6. main_before_save_report lib argv w = (Inr df, w5) \<and>
           save_report df w5 = (Inr (), w6) \<and> files w' = files w6"
  using assms(2) unfolding main_split [OF assms(1)]
  by (auto dest!: io_bind_InrD simp: print_eq)




text \<open>
  Claim C4: \<^verbatim>\<open>save_model\<close> serializes the best estimator of the grid search (the fitted
  pipeline held in \<^verbatim>\<open>best_estimator_\<close>), not the grid search object itself, to the file
  at the path it is given; and in a run of \<^verbatim>\<open>main\<close> that path is the second
  command-line argument, the model is the one that fitting returned, and the file holds
  the pickled best estimator when the run returns.
\<close>

theorem save_model_pickles_best_estimator:
  fixes w :: "('w, 'f) world" and w0 :: "('w, 'f) world"
  shows
  "(save_model model model_filepath w = (Inr (), w') \<longrightarrow>
      (\<exists>est learnt. best_estimator model = Some (est, learnt) \<and>
         files w' model_filepath = Some (PickleFile (FittedEstimator est learnt))) \<and>
      files w' model_filepath \<noteq> Some (PickleFile (SearchObject model)))
   \<and> (length argv = 3 \<and> main lib argv w0 = (Inr (), w1) \<longrightarrow>
        (\<exists>X_train Y_train model est learnt.
           fit lib (build_model (nltk_data lib)) X_train Y_train = Inr model \<and>
           best_estimator model = Some (est, learnt) \<and>
           files w1 (argv ! 2) = Some (PickleFile (FittedEstimator est learnt))))"
proof (intro conjI impI)
  assume a: "save_model model model_filepath w = (Inr (), w')"
  from save_model_success [OF a]
  show "\<exists>est learnt. best_estimator model = Some (est, learnt) \<and>
         files w' model_filepath = Some (PickleFile (FittedEstimator est learnt))"
    by auto
  from save_model_success [OF a]
  show "files w' model_filepath \<noteq> Some (PickleFile (SearchObject model))"
    by auto
next
  assume a: "length argv = 3 \<and> main lib argv w0 = (Inr (), w1)"
  with main_success [of argv lib w0 "()" w1] obtain df w5 w6 where
    b: "main_before_save_report lib argv w0 = (Inr df, w5)"
    and r: "save_report df w5 = (Inr (), w6)" and f: "files w1 = files w6"
    by blast
  from before_success [OF b] obtain X_train Y_train model est learnt where
    m: "fit lib (build_model (nltk_data lib)) X_train Y_train = Inr model"
      "best_estimator model = Some (est, learnt)"
      "files w5 (argv ! 2) = Some (PickleFile (FittedEstimator est learnt))"
    by blast
  have "argv ! 2 \<noteq> ''data/DisasterResponse.db''"
  proof
    assume "argv ! 2 = ''data/DisasterResponse.db''"
    with m(3) save_report_pickle [of w5 _ df] r show False by simp
  qed
  from save_report_other_files [OF r this] f m(3)
  have "files w1 (argv ! 2) = Some (PickleFile (FittedEstimator est learnt))" by simp
  with m show "\<exists>X_train Y_train model est learnt.
           fit lib (build_model (nltk_data lib)) X_train Y_train = Inr model \<and>
           best_estimator model = Some (est, learnt) \<and>
           files w1 (argv ! 2) = Some (PickleFile (FittedEstimator est learnt))"
    by blast
qed

theorem save_model_pickles_best_estimator_witness:
  "fst (main example_lib example_argv example_world) = Inr ()
   \<and> files (snd (main example_lib example_argv example_world)) ''classifier.pkl''
       = Some (PickleFile (FittedEstimator (estimator (build_model nltk_fragment :: unit GridSearchCV)) ()))"
proof -
  let ?w1 = "snd (main example_lib example_argv example_world)"
  have h: "fst (main example_lib example_argv example_world) = Inr ()" by code_simp
  then have run: "length example_argv = 3 \<and> main example_lib example_argv example_world = (Inr (), ?w1)"
    by (simp add: example_argv_def prod_eq_iff)
  from save_model_pickles_best_estimator [of _ _ "example_world" _ example_argv example_lib example_world ?w1] run
  obtain X_train Y_train model est learnt where
    m: "fit example_lib (build_model (nltk_data example_lib)) X_train Y_train = Inr model"
      "best_estimator model = Some (est, learnt)"
      "files ?w1 (example_argv ! 2) = Some (PickleFile (FittedEstimator est learnt))"
    by blast
  from m(1,2) have "est = estimator (build_model nltk_fragment :: unit GridSearchCV)"
    by (auto simp: example_lib_def)
  with m(3) h show ?thesis by (simp add: example_argv_def)
qed

text \<open>
  Claim C8: \<^verbatim>\<open>save_report\<close> writes the evaluation report table into the database at the
  fixed path \<^verbatim>\<open>data/DisasterResponse.db\<close> under the fixed table name \<^verbatim>\<open>df_report\<close>:
  when it returns, the database there holds exactly one table of that name, which is
  the report (a table of that name from before is replaced as a whole), the other
  tables of the database and all other files are as before. In a run of \<^verbatim>\<open>main\<close> that
  returns, the table written there is the report of \<^verbatim>\<open>evaluate_model\<close>, whatever the
  database path on the command line.
\<close>

theorem save_report_fixed_table:
  fixes w :: "('w, 'f) world" and w0 :: "('w, 'f) world"
  shows
  "(save_report df_report w = (Inr (), w') \<longrightarrow>
      (\<exists>tables. files w' ''data/DisasterResponse.db'' = Some (SqliteFile tables) \<and>
         filter (\<lambda>t. fst t = ''df_report'') tables = [(''df_report'', df_report)]) \<and>
      table_at w' ''data/DisasterResponse.db'' ''df_report'' = Some df_report \<and>
      (\<forall>n. n \<noteq> ''df_report'' \<longrightarrow>
         table_at w' ''data/DisasterResponse.db'' n = table_at w ''data/DisasterResponse.db'' n) \<and>
      (\<forall>q. q \<noteq> ''data/DisasterResponse.db'' \<longrightarrow> files w' q = files w q))
   \<and> (length argv = 3 \<and> main lib argv w0 = (Inr (), w1) \<longrightarrow>
        (\<exists>df model X_test Y_test names (wa :: ('w, 'f) world) wb.
           evaluate_model lib model X_test Y_test names wa = (Inr df, wb) \<and>
           table_at w1 ''data/DisasterResponse.db'' ''df_report'' = Some df))"
proof -
  have one: "(\<exists>tables. files v' ''data/DisasterResponse.db'' = Some (SqliteFile tables) \<and>
         filter (\<lambda>t. fst t = ''df_report'') tables = [(''df_report'', df)]) \<and>
      table_at v' ''data/DisasterResponse.db'' ''df_report'' = Some df \<and>
      (\<forall>n. n \<noteq> ''df_report'' \<longrightarrow>
         table_at v' ''data/DisasterResponse.db'' n = table_at v ''data/DisasterResponse.db'' n) \<and>
      (\<forall>q. q \<noteq> ''data/DisasterResponse.db'' \<longrightarrow> files v' q = files v q)"
    if a: "save_report df v = (Inr (), v')" for df and v v' :: "('w, 'f) world"
  proof -
    from save_report_success [OF a] obtain tables where
      t: "files v' ''data/DisasterResponse.db'' = Some (SqliteFile tables)"
        "filter (\<lambda>t. fst t = ''df_report'') tables = [(''df_report'', df)]"
        "\<forall>n. n \<noteq> ''df_report'' \<longrightarrow> map_of tables n = table_at v ''data/DisasterResponse.db'' n"
      by blast
    have m: "map_of tables ''df_report'' = Some df"
    proof -
      have "map_of tables ''df_report''
          = map_of (filter (\<lambda>t. fst t = ''df_report'') tables) ''df_report''"
        by (induction tables) auto
      then show ?thesis unfolding t(2) by simp
    qed
    from t m save_report_other_files [OF a] show ?thesis
      by (auto simp: table_at_def)
  qed
  have two: "\<exists>df model X_test Y_test names (wa :: ('w, 'f) world) wb.
           evaluate_model lib model X_test Y_test names wa = (Inr df, wb) \<and>
           table_at w1 ''data/DisasterResponse.db'' ''df_report'' = Some df"
    if a: "length argv = 3 \<and> main lib argv w0 = (Inr (), w1)"
  proof -
    from a main_success [of argv lib w0 "()" w1] obtain df w5 w6 where
      b: "main_before_save_report lib argv w0 = (Inr df, w5)"
      and r: "save_report df w5 = (Inr (), w6)" and f: "files w1 = files w6"
      by blast
    from one [OF r] f have "table_at w1 ''data/DisasterResponse.db'' ''df_report'' = Some df"
      by (simp add: table_at_def)
    with before_success_report [OF b] show ?thesis by blast
  qed
  from one [of df_report w w'] two show ?thesis by blast
qed

theorem save_report_fixed_table_witness:
  "example_argv ! 1 = ''messages.db''
   \<and> fst (main example_lib example_argv example_world) = Inr ()
   \<and> table_at (snd (main example_lib example_argv example_world))
        ''data/DisasterResponse.db'' ''df_report''
     = Some \<lparr>columns = [''class'', ''precision'', ''recall'', ''f1_score'', ''support''],
             rows = [[Str ''water'', Num 1, Num 1, Num 1, Num 1],
                     [Str ''food'', Num 1, Num 1, Num 1, Num 1]]\<rparr>
   \<and> table_at (snd (main example_lib example_argv example_world))
        ''messages.db'' ''df_report'' = None"
proof -
  let ?w1 = "snd (main example_lib example_argv example_world)"
  have h: "fst (main example_lib example_argv example_world) = Inr ()" by code_simp
  then have run: "length example_argv = 3 \<and> main example_lib example_argv example_world = (Inr (), ?w1)"
    by (simp add: example_argv_def prod_eq_iff)
  from save_report_fixed_table [of _ "example_world" _ example_argv example_lib example_world ?w1] run
  obtain df where d: "table_at ?w1 ''data/DisasterResponse.db'' ''df_report'' = Some df"
    by blast
  have v: "table_at ?w1 ''data/DisasterResponse.db'' ''df_report''
     = Some \<lparr>columns = [''class'', ''precision'', ''recall'', ''f1_score'', ''support''],
             rows = [[Str ''water'', Num 1, Num 1, Num 1, Num 1],
                     [Str ''food'', Num 1, Num 1, Num 1, Num 1]]\<rparr>"
    by code_simp
  have n: "table_at ?w1 ''messages.db'' ''df_report'' = None" by code_simp
  have p: "example_argv ! 1 = ''messages.db''" by (simp add: example_argv_def)
  from p h d v n show ?thesis by simp
qed



end
